theory Spec2Isabelle
  imports Complex_Main "HOL-Library.Sublist"
begin

section \<open>The UAP dashboard script (\<^verbatim>\<open>src/uapdb/app.py\<close>)\<close>

text \<open>
  The script is a linear pandas program: it loads \<^verbatim>\<open>updb.csv\<close>, derives columns,
  builds the table \<^verbatim>\<open>final_df\<close> and registers the callback \<^verbatim>\<open>update_charts\<close>.
  A data frame is modelled as a list of rows; while the index labels matter (lines 14
  to 33) each row carries its label. A float column is \<open>real option\<close>, with \<open>None\<close>
  for NaN. Text is \<open>string\<close>, its characters read as the code points U+0000 to
  U+00FF. The functions of TextBlob and the text-to-number reader of
  \<^verbatim>\<open>pd.to_numeric\<close> are not part of the repository: they are parameters
  (\<open>tb\<close>, \<open>num\<close>) of every definition that calls them.
\<close>

subsection \<open>Text primitives of Python\<close>

text \<open>\<^verbatim>\<open>str.isspace\<close>, the separator test of \<^verbatim>\<open>str.split()\<close>.\<close>

definition isspace :: "char \<Rightarrow> bool" where
  "isspace c = (let n = (of_char c :: nat) in
     (9 \<le> n \<and> n \<le> 13) \<or> (28 \<le> n \<and> n \<le> 32) \<or> n = 133 \<or> n = 160)"

text \<open>The class \<^verbatim>\<open>\w\<close> of a Unicode pattern: alphanumeric characters and the underscore.\<close>

definition is_word_char :: "char \<Rightarrow> bool" where
  "is_word_char c = (let n = (of_char c :: nat) in
     (48 \<le> n \<and> n \<le> 57) \<or> (65 \<le> n \<and> n \<le> 90) \<or> n = 95 \<or> (97 \<le> n \<and> n \<le> 122)
     \<or> n = 170 \<or> n = 178 \<or> n = 179 \<or> n = 181 \<or> n = 185 \<or> n = 186
     \<or> (188 \<le> n \<and> n \<le> 190) \<or> (192 \<le> n \<and> n \<le> 214) \<or> (216 \<le> n \<and> n \<le> 246)
     \<or> 248 \<le> n)"

text \<open>\<^verbatim>\<open>str.lower\<close>, character by character.\<close>

definition lower_char :: "char \<Rightarrow> char" where
  "lower_char c = (let n = (of_char c :: nat) in
     if (65 \<le> n \<and> n \<le> 90) \<or> (192 \<le> n \<and> n \<le> 214) \<or> (216 \<le> n \<and> n \<le> 222)
     then char_of (n + 32) else c)"

definition str_lower :: "string \<Rightarrow> string" where
  "str_lower s = map lower_char s"

text \<open>
  The maximal runs of characters that satisfy \<open>p\<close>, left to right. Both
  \<^verbatim>\<open>str.split()\<close> (runs of non-space characters) and the token pattern of the
  vectorizer (runs of word characters) are instances.
\<close>

function runs :: "(char \<Rightarrow> bool) \<Rightarrow> string \<Rightarrow> string list" where
  "runs p s = (case dropWhile (\<lambda>c. \<not> p c) s of
                 [] \<Rightarrow> []
               | x # xs \<Rightarrow> takeWhile p (x # xs) # runs p (dropWhile p (x # xs)))"
  by pat_completeness auto
termination
proof (relation "measure (\<lambda>(p, s). length s)")
  show "wf (measure (\<lambda>(p, s). length s))" by simp
next
  fix p :: "char \<Rightarrow> bool" and s x xs
  assume a: "dropWhile (\<lambda>c. \<not> p c) s = x # xs"
  have px: "p x" using a hd_dropWhile[of "\<lambda>c. \<not> p c" s] by auto
  have "length (dropWhile p (x # xs)) \<le> length xs"
    using px by (simp add: length_dropWhile_le)
  also have "length xs < length (x # xs)" by simp
  also have "length (x # xs) \<le> length s"
    using a length_dropWhile_le[of "\<lambda>c. \<not> p c" s] by simp
  finally show "((p, dropWhile p (x # xs)), (p, s)) \<in> measure (\<lambda>(p, s). length s)"
    by simp
qed

declare runs.simps [simp del]

text \<open>\<^verbatim>\<open>s.split()\<close> with no argument.\<close>

definition split_ws :: "string \<Rightarrow> string list" where
  "split_ws s = runs (\<lambda>c. \<not> isspace c) s"

text \<open>
  The analyzer of \<^verbatim>\<open>CountVectorizer\<close> with its defaults: the text is lowercased and
  \<^verbatim>\<open>re.findall(r"(?u)\b\w\w+\b", text)\<close> keeps the runs of word characters that are
  at least two characters long.
\<close>

definition tokenize :: "string \<Rightarrow> string list" where
  "tokenize s = filter (\<lambda>w. 2 \<le> length w) (runs is_word_char (str_lower s))"

subsection \<open>The input table and line 14: load and drop incomplete rows\<close>

text \<open>
  A cell of a column that \<^verbatim>\<open>read_csv\<close> could not read as numbers throughout holds the
  text as it stands; a missing cell is \<open>None\<close>.
\<close>

datatype cell = Num real | Text string

record csv_row =
  csv_latitude :: "real option"
  csv_longitude :: "real option"
  csv_country :: "string option"
  csv_city :: "string option"
  csv_Year :: "cell option"
  csv_description :: "string option"

text \<open>\<^verbatim>\<open>read_csv\<close> labels the rows 0, 1, 2, ...\<close>

definition read_csv :: "csv_row list \<Rightarrow> (nat \<times> csv_row) list" where
  "read_csv updb = enumerate 0 updb"

definition notna_subset :: "csv_row \<Rightarrow> bool" where
  "notna_subset r = (csv_latitude r \<noteq> None \<and> csv_longitude r \<noteq> None \<and> csv_country r \<noteq> None
     \<and> csv_Year r \<noteq> None \<and> csv_description r \<noteq> None)"

text \<open>\<^verbatim>\<open>dropna(subset=[...])\<close>: the surviving rows keep their labels.\<close>

definition dropna_subset :: "(nat \<times> csv_row) list \<Rightarrow> (nat \<times> csv_row) list" where
  "dropna_subset frame = filter (\<lambda>(i, r). notna_subset r) frame"

subsection \<open>Line 15: the Year column\<close>

text \<open>\<^verbatim>\<open>pd.to_numeric(..., errors='coerce')\<close> on one cell; \<open>num\<close> reads a text.\<close>

definition to_numeric_coerce :: "(string \<Rightarrow> real option) \<Rightarrow> cell option \<Rightarrow> real option" where
  "to_numeric_coerce num v =
     (case v of None \<Rightarrow> None | Some (Num x) \<Rightarrow> Some x | Some (Text s) \<Rightarrow> num s)"

definition to_numeric :: "(string \<Rightarrow> real option) \<Rightarrow> (nat \<times> csv_row) list \<Rightarrow> (nat \<times> real option) list" where
  "to_numeric num frame = map (\<lambda>(i, r). (i, to_numeric_coerce num (csv_Year r))) frame"

text \<open>\<^verbatim>\<open>Series.dropna()\<close>: the NaN entries leave the series, labels and all.\<close>

definition series_dropna :: "(nat \<times> real option) list \<Rightarrow> (nat \<times> real) list" where
  "series_dropna s = List.map_filter (\<lambda>(i, v). map_option (Pair i) v) s"

text \<open>
  \<^verbatim>\<open>df['Year'] = series\<close> aligns the series with the frame by label: the row labelled
  \<open>i\<close> receives the series' entry for \<open>i\<close>, and NaN where the series has none.
\<close>

definition setitem_Year :: "(nat \<times> real) list \<Rightarrow> nat \<Rightarrow> real option" where
  "setitem_Year s i = map_of s i"

subsection \<open>Lines 16 to 25: derived columns\<close>

record df_row =
  latitude :: "real option"
  longitude :: "real option"
  country :: "string option"
  city :: "string option"
  Year :: "real option"
  description :: string
  sentiment :: real
  subjectivity :: real
  mentions :: int
  impact :: real
  veracity :: real
  image_score :: real
  Analysis_Category :: string
  short_description :: string

text \<open>\<^verbatim>\<open>astype(str)\<close> on a text column: NaN becomes the text \<^verbatim>\<open>nan\<close>.\<close>

definition astype_str :: "string option \<Rightarrow> string" where
  "astype_str v = (case v of None \<Rightarrow> ''nan'' | Some s \<Rightarrow> s)"

definition nlp_row :: "(string \<Rightarrow> real \<times> real) \<Rightarrow> real option \<Rightarrow> csv_row \<Rightarrow> df_row" where
  "nlp_row tb y r =
     (let d = astype_str (csv_description r);
          pol = fst (tb d);
          subj = snd (tb d);
          m = int (length (split_ws d));
          ver = ln (real_of_int (m + 1)) * \<bar>pol\<bar>
      in \<lparr> latitude = csv_latitude r, longitude = csv_longitude r, country = csv_country r,
           city = csv_city r, Year = y, description = d,
           sentiment = pol, subjectivity = subj, mentions = m,
           impact = ln (real_of_int (m + 1)),
           veracity = ver,
           image_score = (\<bar>pol\<bar> + subj) * ver,
           Analysis_Category = (if subj < 0.5 then ''Scientific'' else ''Emotional''),
           short_description = take 100 d @ ''...'' \<rparr>)"

text \<open>The frame \<^verbatim>\<open>df\<close> after line 25, rows with their labels.\<close>

definition df :: "(string \<Rightarrow> real \<times> real) \<Rightarrow> (string \<Rightarrow> real option) \<Rightarrow> csv_row list \<Rightarrow> (nat \<times> df_row) list" where
  "df tb num updb =
     (let frame = dropna_subset (read_csv updb);
          years = series_dropna (to_numeric num frame)
      in map (\<lambda>(i, r). (i, nlp_row tb (setitem_Year years i) r)) frame)"

subsection \<open>Lines 28 to 33: keyword columns and the merged table\<close>

text \<open>The list \<^verbatim>\<open>keywords\<close> (the name is reserved in the theory language, hence the prime).\<close>

definition keywords' :: "string list" where
  "keywords' = [''craft'', ''alien'', ''ufo'', ''object'', ''disk'', ''orb'', ''triangle'',
     ''hover'', ''saucer'', ''cigar'', ''sphere'', ''entity'']"

text \<open>
  One row of \<^verbatim>\<open>vectorizer.fit_transform(...).toarray()\<close> under its column names: with
  \<^verbatim>\<open>binary=True\<close> the entry of a vocabulary term is 1 when the term is one of the
  document's tokens and 0 otherwise.
\<close>

definition kw_row :: "string \<Rightarrow> (string \<times> int) list" where
  "kw_row doc = map (\<lambda>k. (''kw_'' @ k, if k \<in> set (tokenize doc) then 1 else 0)) keywords'"

definition keywords_df :: "(nat \<times> df_row) list \<Rightarrow> (string \<times> int) list list" where
  "keywords_df frame = map (\<lambda>(i, r). kw_row (str_lower (description r))) frame"

record final_row = df_row +
  kw :: "(string \<times> int) list"

definition concat_row :: "df_row \<Rightarrow> (string \<times> int) list \<Rightarrow> final_row" where
  "concat_row r k =
     \<lparr> latitude = latitude r, longitude = longitude r, country = country r, city = city r,
       Year = Year r, description = description r, sentiment = sentiment r,
       subjectivity = subjectivity r, mentions = mentions r, impact = impact r,
       veracity = veracity r, image_score = image_score r,
       Analysis_Category = Analysis_Category r, short_description = short_description r,
       kw = k \<rparr>"

text \<open>
  \<^verbatim>\<open>pd.concat([df.reset_index(drop=True), keywords_df], axis=1)\<close>: both frames are
  labelled 0, 1, 2, ... and are merged row by row.
\<close>

definition final_df :: "(string \<Rightarrow> real \<times> real) \<Rightarrow> (string \<Rightarrow> real option) \<Rightarrow> csv_row list \<Rightarrow> final_row list" where
  "final_df tb num updb =
     (let frame = df tb num updb
      in map2 concat_row (map snd frame) (keywords_df frame))"

text \<open>The value of column \<^verbatim>\<open>kw_T\<close> in a row of the merged table.\<close>

definition kw_flag :: "final_row \<Rightarrow> string \<Rightarrow> int option" where
  "kw_flag r T = map_of (kw r) (''kw_'' @ T)"

subsection \<open>Lines 36 to 61: what the layout needs from the table\<close>

datatype error = ValueError

text \<open>\<^verbatim>\<open>Series.min()\<close> and \<^verbatim>\<open>Series.max()\<close> skip NaN and are NaN when nothing is left.\<close>

definition notna_values :: "real option list \<Rightarrow> real list" where
  "notna_values vs = List.map_filter id vs"

definition series_min :: "real option list \<Rightarrow> real option" where
  "series_min vs = (case notna_values vs of [] \<Rightarrow> None | x # xs \<Rightarrow> Some (fold min xs x))"

definition series_max :: "real option list \<Rightarrow> real option" where
  "series_max vs = (case notna_values vs of [] \<Rightarrow> None | x # xs \<Rightarrow> Some (fold max xs x))"

text \<open>\<^verbatim>\<open>int(x)\<close> on a float: NaN raises, any other value is truncated towards zero.\<close>

definition py_int :: "real option \<Rightarrow> error + int" where
  "py_int v = (case v of None \<Rightarrow> Inl ValueError
               | Some x \<Rightarrow> Inr (if 0 \<le> x then \<lfloor>x\<rfloor> else \<lceil>x\<rceil>))"

text \<open>The bounds of the \<^verbatim>\<open>year-filter\<close> slider; building the layout fails without them.\<close>

definition year_filter :: "final_row list \<Rightarrow> error + (int \<times> int)" where
  "year_filter table =
     (case py_int (series_min (map Year table)) of
        Inl e \<Rightarrow> Inl e
      | Inr lo \<Rightarrow> (case py_int (series_max (map Year table)) of
                    Inl e \<Rightarrow> Inl e
                  | Inr hi \<Rightarrow> Inr (lo, hi)))"

text \<open>
  The module's state once the script has run. A Python name refers to an object, and a
  data frame is an object that a call can be handed and can write to. The state is
  therefore a heap of frames, addressed by position, together with the object that the
  global name \<^verbatim>\<open>final_df\<close> refers to. A new object is appended to the heap.
\<close>

type_synonym frame = "final_row list"

record module_state =
  heap :: "frame list"
  final_df_ref :: nat

definition startup :: "(string \<Rightarrow> real \<times> real) \<Rightarrow> (string \<Rightarrow> real option) \<Rightarrow> csv_row list \<Rightarrow> error + module_state" where
  "startup tb num updb =
     (let table = final_df tb num updb
      in case year_filter table of
           Inl e \<Rightarrow> Inl e
         | Inr bounds \<Rightarrow> Inr \<lparr> heap = [table], final_df_ref = 0 \<rparr>)"

subsection \<open>Lines 69 to 88: the callback \<^verbatim>\<open>update_charts\<close>\<close>

text \<open>\<^verbatim>\<open>Series.between(left, right)\<close>, inclusive on both sides; NaN compares false.\<close>

definition between :: "real \<Rightarrow> real \<Rightarrow> real option \<Rightarrow> bool" where
  "between left right v = (case v of None \<Rightarrow> False | Some y \<Rightarrow> left \<le> y \<and> y \<le> right)"

definition isin :: "string list \<Rightarrow> string option \<Rightarrow> bool" where
  "isin vals v = (case v of None \<Rightarrow> False | Some c \<Rightarrow> c \<in> set vals)"

text \<open>
  Lines 70 to 72, as a function of the rows of the table: the rows of the frame that the
  name \<^verbatim>\<open>dff\<close> refers to when line 74 is reached. The slider sends the pair
  \<^verbatim>\<open>years\<close>; the dropdown sends \<^verbatim>\<open>None\<close> or a list, and \<^verbatim>\<open>if countries:\<close> holds for a
  non-empty list only.
\<close>

definition dff :: "final_row list \<Rightarrow> string list option \<Rightarrow> real \<times> real \<Rightarrow> final_row list" where
  "dff table countries years =
     (let sel = filter (\<lambda>r. between (fst years) (snd years) (Year r)) table
      in case countries of
           None \<Rightarrow> sel
         | Some cs \<Rightarrow> if cs \<noteq> [] then filter (\<lambda>r. isin cs (country r)) sel else sel)"

text \<open>\<^verbatim>\<open>Series.mean()\<close> skips NaN and is NaN, not an exception, when nothing is left.\<close>

definition series_mean :: "real option list \<Rightarrow> real option" where
  "series_mean vs = (case notna_values vs of [] \<Rightarrow> None
                     | x # xs \<Rightarrow> Some (sum_list (x # xs) / real (length (x # xs))))"

text \<open>\<^verbatim>\<open>groupby('Year').size()\<close>: the years present, ascending, each with its row count.\<close>

definition groupby_Year_size :: "final_row list \<Rightarrow> (real \<times> int) list" where
  "groupby_Year_size rows =
     (let ys = notna_values (map Year rows)
      in map (\<lambda>y. (y, int (count_list ys y))) (sort (remdups ys)))"

text \<open>
  The four figures, each as the data its \<^verbatim>\<open>plotly.express\<close> call is given. The library
  is not part of the repository: what it draws, and whether it accepts a frame without
  rows or a frame without the column a call names, is outside this model. The table of
  this model always has the \<^verbatim>\<open>city\<close> column, which line 74 names.
\<close>

record geo_mark =
  geo_lat :: "real option"
  geo_lon :: "real option"
  geo_hover_name :: "string option"
  geo_hover_data :: "string \<times> real option \<times> string"
  geo_color :: string
  geo_size :: real

record hyper_mark =
  hyper_x :: real
  hyper_y :: real
  hyper_size :: real
  hyper_color :: string

record density_mapbox =
  density_marks :: "(real option \<times> real option \<times> real) list"
  density_center :: "real option \<times> real option"
  density_radius :: int
  density_zoom :: int

record figures =
  geo_fig :: "geo_mark list"
  trend_fig :: "(real \<times> int) list"
  hyper_fig :: "hyper_mark list"
  battle_fig :: density_mapbox

definition scatter_geo :: "final_row list \<Rightarrow> geo_mark list" where
  "scatter_geo rows = map (\<lambda>r.
     \<lparr> geo_lat = latitude r, geo_lon = longitude r, geo_hover_name = city r,
       geo_hover_data = (short_description r, Year r, Analysis_Category r),
       geo_color = Analysis_Category r, geo_size = veracity r \<rparr>) rows"

definition scatter :: "final_row list \<Rightarrow> hyper_mark list" where
  "scatter rows = map (\<lambda>r.
     \<lparr> hyper_x = sentiment r, hyper_y = subjectivity r, hyper_size = veracity r,
       hyper_color = Analysis_Category r \<rparr>) rows"

definition density_mapbox :: "final_row list \<Rightarrow> density_mapbox" where
  "density_mapbox rows =
     \<lparr> density_marks = map (\<lambda>r. (latitude r, longitude r, image_score r)) rows,
       density_center = (series_mean (map latitude rows), series_mean (map longitude rows)),
       density_radius = 20, density_zoom = 1 \<rparr>"

text \<open>
  \<^verbatim>\<open>final_df[mask]\<close> and \<^verbatim>\<open>dff[mask]\<close>: indexing a frame with a boolean column copies the
  selected rows into a new frame and leaves the indexed frame as it is.
\<close>

definition getitem_mask :: "(final_row \<Rightarrow> bool) \<Rightarrow> nat \<Rightarrow> module_state \<Rightarrow> nat \<times> module_state" where
  "getitem_mask keep a st =
     (length (heap st), st \<lparr> heap := heap st @ [filter keep (heap st ! a)] \<rparr>)"

text \<open>
  A \<^verbatim>\<open>plotly.express\<close> call is handed a reference to the frame \<^verbatim>\<open>dff\<close>. What the call does
  to that frame is the library's business: the model lets each call rewrite the frame it
  is handed in any way at all (the parameter \<open>px\<close>), and lets it reach no other object.
  A library that only reads its argument is the instance where the three functions are
  the identity.
\<close>

record px_writes =
  scatter_geo_writes :: "frame \<Rightarrow> frame"
  scatter_writes :: "frame \<Rightarrow> frame"
  density_mapbox_writes :: "frame \<Rightarrow> frame"

definition px_call :: "(frame \<Rightarrow> frame) \<Rightarrow> nat \<Rightarrow> module_state \<Rightarrow> module_state" where
  "px_call writes a st = st \<lparr> heap := (heap st)[a := writes (heap st ! a)] \<rparr>"

text \<open>
  The callback, statement by statement. \<open>d\<close> is the object the local name \<^verbatim>\<open>dff\<close> refers
  to: line 70 binds it to a new frame and line 72 rebinds it to another. Every figure is
  built from the rows that \<^verbatim>\<open>dff\<close> holds when its call is made. The frame of counts that
  line 78 hands to \<^verbatim>\<open>px.line\<close> is a new object that no name refers to. The callback has no
  \<^verbatim>\<open>global\<close> statement and assigns to \<^verbatim>\<open>dff\<close> and to the four figures only, so the name
  \<^verbatim>\<open>final_df\<close> is never rebound.
\<close>

definition update_charts :: "px_writes \<Rightarrow> string list option \<Rightarrow> real \<times> real \<Rightarrow> module_state \<Rightarrow> figures \<times> module_state" where
  "update_charts px countries years st =
     (let (d0, st0) = getitem_mask (\<lambda>r. between (fst years) (snd years) (Year r)) (final_df_ref st) st;
          (d, st1) = (case countries of
                        None \<Rightarrow> (d0, st0)
                      | Some cs \<Rightarrow> if cs \<noteq> [] then getitem_mask (\<lambda>r. isin cs (country r)) d0 st0
                                   else (d0, st0));
          geo = scatter_geo (heap st1 ! d);
          st2 = px_call (scatter_geo_writes px) d st1;
          trend = groupby_Year_size (heap st2 ! d);
          hyper = scatter (heap st2 ! d);
          st3 = px_call (scatter_writes px) d st2;
          battle = density_mapbox (heap st3 ! d);
          st4 = px_call (density_mapbox_writes px) d st3
      in (\<lparr> geo_fig = geo, trend_fig = trend, hyper_fig = hyper, battle_fig = battle \<rparr>, st4))"

subsection \<open>Concrete inputs\<close>

text \<open>
  Instances of the two library parameters for running the script on concrete tables:
  an analyser that scores every text \<open>(0, 0)\<close>, and a reader that accepts exactly the
  unsigned decimal integers.
\<close>

definition flat_sentiment :: "string \<Rightarrow> real \<times> real" where
  "flat_sentiment s = (0, 0)"

definition digit_value :: "char \<Rightarrow> nat option" where
  "digit_value c = (let n = (of_char c :: nat) in if 48 \<le> n \<and> n \<le> 57 then Some (n - 48) else None)"

fun digits_nat :: "nat \<Rightarrow> string \<Rightarrow> nat option" where
  "digits_nat acc [] = Some acc"
| "digits_nat acc (c # cs) =
     (case digit_value c of None \<Rightarrow> None | Some d \<Rightarrow> digits_nat (10 * acc + d) cs)"

definition digits_numeric :: "string \<Rightarrow> real option" where
  "digits_numeric s = (if s = [] then None else map_option real (digits_nat 0 s))"

text \<open>The two rows of the spec's end-to-end scenario.\<close>

definition reno :: csv_row where
  "reno = \<lparr> csv_latitude = Some 39.5, csv_longitude = Some (- 119.8), csv_country = Some ''USA'',
     csv_city = Some ''Reno'', csv_Year = Some (Num 1995),
     csv_description = Some ''A silver saucer with a hovering disk shape'' \<rparr>"

definition paris :: csv_row where
  "paris = \<lparr> csv_latitude = Some 48.8, csv_longitude = Some 2.3, csv_country = Some ''France'',
     csv_city = Some ''Paris'', csv_Year = Some (Num 2001),
     csv_description = Some ''Bright orb seen over the city'' \<rparr>"

text \<open>
  Two libraries for running the callback: one that only reads the frame it is handed,
  and one that removes every row of it.
\<close>

definition px_reading :: px_writes where
  "px_reading = \<lparr> scatter_geo_writes = (\<lambda>f. f), scatter_writes = (\<lambda>f. f),
                   density_mapbox_writes = (\<lambda>f. f) \<rparr>"

definition px_clearing :: px_writes where
  "px_clearing = \<lparr> scatter_geo_writes = (\<lambda>f. []), scatter_writes = (\<lambda>f. []),
                    density_mapbox_writes = (\<lambda>f. []) \<rparr>"

text \<open>A file whose Year column holds a text that is no number in its second row.\<close>

definition unknown_year_table :: "csv_row list" where
  "unknown_year_table =
     [reno \<lparr> csv_Year := Some (Text ''1995'') \<rparr>, paris \<lparr> csv_Year := Some (Text ''unknown'') \<rparr>]"

subsection \<open>Notions the properties are stated with\<close>

text \<open>
  What lines 14 to 33 do to one complete row of the file. The table is shown below
  (\<open>final_df_rows\<close>) to be this function mapped over the complete rows.
\<close>

definition enrich :: "(string \<Rightarrow> real \<times> real) \<Rightarrow> (string \<Rightarrow> real option) \<Rightarrow> csv_row \<Rightarrow> final_row" where
  "enrich tb num r =
     (let q = nlp_row tb (to_numeric_coerce num (csv_Year r)) r
      in concat_row q (kw_row (str_lower (description q))))"

text \<open>
  The word count of a text, counted without splitting it: the number of characters
  that start a word, a word being a maximal stretch of characters that satisfy \<open>p\<close>.
  The flag says whether the previous character was outside a word.
\<close>

fun starts :: "(char \<Rightarrow> bool) \<Rightarrow> bool \<Rightarrow> string \<Rightarrow> nat" where
  "starts p outside [] = 0"
| "starts p outside (c # cs) = (if p c \<and> outside then 1 else 0) + starts p (\<not> p c) cs"

definition word_count :: "string \<Rightarrow> nat" where
  "word_count s = starts (\<lambda>c. \<not> isspace c) True s"

text \<open>
  \<open>w\<close> stands in \<open>s\<close> as a whole word: an occurrence of \<open>w\<close> with no word character
  next to it on either side.
\<close>

definition whole_word :: "string \<Rightarrow> string \<Rightarrow> bool" where
  "whole_word w s = (\<exists>pre post. s = pre @ w @ post
     \<and> (pre = [] \<or> \<not> is_word_char (last pre)) \<and> (post = [] \<or> \<not> is_word_char (hd post)))"

text \<open>The two predicates of lines 70 to 72 applied in the opposite order.\<close>

definition dff_country_first :: "final_row list \<Rightarrow> string list option \<Rightarrow> real \<times> real \<Rightarrow> final_row list" where
  "dff_country_first table countries years =
     (let sel = (case countries of
                   None \<Rightarrow> table
                 | Some cs \<Rightarrow> if cs \<noteq> [] then filter (\<lambda>r. isin cs (country r)) table else table)
      in filter (\<lambda>r. between (fst years) (snd years) (Year r)) sel)"

section \<open>Properties\<close>

subsection \<open>The table is built row by row\<close>

lemma aligned_lookup:
  "distinct (map fst xs) \<Longrightarrow> (i, r) \<in> set xs \<Longrightarrow>
   map_of (List.map_filter (\<lambda>(i, v). map_option (Pair i) v) (map (\<lambda>(i, r). (i, f r)) xs)) i = f r"
proof (induction xs)
  case Nil
  then show ?case by simp
next
  case (Cons a xs)
  obtain j q where a: "a = (j, q)" by (cases a)
  show ?case
  proof (cases "i = j")
    case True
    with Cons.prems a have rq: "r = q" by (auto simp: rev_image_eqI)
    have notin: "j \<notin> fst ` set xs" using Cons.prems a by simp
    have none: "map_of (List.map_filter (\<lambda>(i, v). map_option (Pair i) v)
                  (map (\<lambda>(i, r). (i, f r)) xs)) j = None"
      using notin by (induction xs) (auto simp: List.map_filter_simps split: option.splits)
    show ?thesis using True rq a none
      by (cases "f q") (simp_all add: List.map_filter_simps)
  next
    case False
    with Cons.prems a have "(i, r) \<in> set xs" "distinct (map fst xs)" by auto
    then have "map_of (List.map_filter (\<lambda>(i, v). map_option (Pair i) v)
                 (map (\<lambda>(i, r). (i, f r)) xs)) i = f r"
      by (rule Cons.IH[rotated])
    then show ?thesis using False a
      by (cases "f q") (simp_all add: List.map_filter_simps)
  qed
qed

lemma distinct_frame: "distinct (map fst (dropna_subset (read_csv updb)))"
  by (simp add: dropna_subset_def read_csv_def distinct_map_filter)

lemma frame_rows: "map snd (dropna_subset (read_csv updb)) = filter notna_subset updb"
proof -
  have "map snd (filter (\<lambda>(i, r). notna_subset r) (enumerate n xs)) = filter notna_subset xs"
    for n and xs :: "csv_row list"
    by (induction xs arbitrary: n) auto
  then show ?thesis by (simp add: dropna_subset_def read_csv_def)
qed

text \<open>
  Line 15 leaves every row in the frame: the label-aligned assignment gives each row
  the coerced value of its own Year cell, NaN included.
\<close>

lemma df_rows:
  "df tb num updb = map (\<lambda>(i, r). (i, nlp_row tb (to_numeric_coerce num (csv_Year r)) r))
     (dropna_subset (read_csv updb))"
proof -
  let ?frame = "dropna_subset (read_csv updb)"
  have "setitem_Year (series_dropna (to_numeric num ?frame)) i = to_numeric_coerce num (csv_Year r)"
    if "(i, r) \<in> set ?frame" for i r
    unfolding setitem_Year_def series_dropna_def to_numeric_def
    using aligned_lookup[OF distinct_frame that, of "\<lambda>r. to_numeric_coerce num (csv_Year r)"] .
  then show ?thesis
    unfolding df_def Let_def by (intro map_cong) auto
qed

lemma final_df_rows: "final_df tb num updb = map (enrich tb num) (filter notna_subset updb)"
proof -
  let ?frame = "dropna_subset (read_csv updb)"
  let ?g = "\<lambda>r. nlp_row tb (to_numeric_coerce num (csv_Year r)) r"
  have "final_df tb num updb =
      map (\<lambda>(i, r). concat_row (?g r) (kw_row (str_lower (description (?g r))))) ?frame"
    unfolding final_df_def Let_def df_rows keywords_df_def
    by (simp add: zip_map_map zip_same_conv_map split_def comp_def)
  also have "\<dots> = map (enrich tb num) (map snd ?frame)"
    by (simp add: enrich_def Let_def split_def comp_def)
  finally show ?thesis by (simp add: frame_rows)
qed

lemma final_df_Year:
  "map Year (final_df tb num updb) =
     map (\<lambda>r. to_numeric_coerce num (csv_Year r)) (filter notna_subset updb)"
  by (simp add: final_df_rows enrich_def nlp_row_def concat_row_def Let_def)

lemma enrich_fields:
  "latitude (enrich tb num r) = csv_latitude r"
  "longitude (enrich tb num r) = csv_longitude r"
  "country (enrich tb num r) = csv_country r"
  "city (enrich tb num r) = csv_city r"
  "Year (enrich tb num r) = to_numeric_coerce num (csv_Year r)"
  "description (enrich tb num r) = astype_str (csv_description r)"
  "sentiment (enrich tb num r) = fst (tb (astype_str (csv_description r)))"
  "subjectivity (enrich tb num r) = snd (tb (astype_str (csv_description r)))"
  "mentions (enrich tb num r) = int (length (split_ws (astype_str (csv_description r))))"
  "impact (enrich tb num r) = ln (real_of_int (mentions (enrich tb num r) + 1))"
  "veracity (enrich tb num r) = impact (enrich tb num r) * \<bar>sentiment (enrich tb num r)\<bar>"
  "image_score (enrich tb num r) =
     (\<bar>sentiment (enrich tb num r)\<bar> + subjectivity (enrich tb num r)) * veracity (enrich tb num r)"
  "Analysis_Category (enrich tb num r) =
     (if subjectivity (enrich tb num r) < 0.5 then ''Scientific'' else ''Emotional'')"
  "short_description (enrich tb num r) = take 100 (astype_str (csv_description r)) @ ''...''"
  "kw (enrich tb num r) = kw_row (str_lower (astype_str (csv_description r)))"
  by (simp_all add: enrich_def nlp_row_def concat_row_def Let_def)

subsection \<open>Splitting counts the words\<close>

lemma starts_skip: "starts p True (dropWhile (\<lambda>c. \<not> p c) s) = starts p True s"
  by (induction s) auto

lemma starts_inside: "starts p True (dropWhile p s) = starts p False s"
  by (induction s) auto

lemma length_runs: "length (runs p s) = starts p True s"
proof (induction p s rule: runs.induct)
  case (1 p s)
  show ?case
  proof (cases "dropWhile (\<lambda>c. \<not> p c) s")
    case Nil
    have "starts p True s = starts p True (dropWhile (\<lambda>c. \<not> p c) s)"
      by (simp add: starts_skip)
    then have "starts p True s = 0" by (simp only: Nil starts.simps)
    moreover have "runs p s = []" by (simp only: runs.simps[of p s] Nil list.case)
    ultimately show ?thesis by simp
  next
    case (Cons x xs)
    have px: "p x" using Cons hd_dropWhile[of "\<lambda>c. \<not> p c" s] by auto
    have "length (runs p s) = Suc (length (runs p (dropWhile p (x # xs))))"
      using Cons by (simp add: runs.simps[of p s])
    also have "\<dots> = Suc (starts p True (dropWhile p (x # xs)))"
      using "1.IH"[OF Cons] by simp
    also have "\<dots> = Suc (starts p False xs)"
      using px by (simp add: starts_inside)
    also have "\<dots> = starts p True (x # xs)" using px by simp
    also have "\<dots> = starts p True s" using Cons starts_skip[of p s] by simp
    finally show ?thesis .
  qed
qed

lemma mentions_word_count: "length (split_ws s) = word_count s"
  by (simp add: split_ws_def word_count_def length_runs)

subsection \<open>The runs of a text are its whole words\<close>

lemma last_dropWhile_eq: "dropWhile P xs \<noteq> [] \<Longrightarrow> last (dropWhile P xs) = last xs"
proof -
  assume a: "dropWhile P xs \<noteq> []"
  have "last xs = last (takeWhile P xs @ dropWhile P xs)" by simp
  also have "\<dots> = last (dropWhile P xs)" by (simp only: last_appendR[OF a])
  finally show ?thesis by simp
qed

lemma runs_sound:
  "w \<in> set (runs p s) \<Longrightarrow>
     w \<noteq> [] \<and> (\<forall>c\<in>set w. p c) \<and>
     (\<exists>pre post. s = pre @ w @ post \<and> (pre = [] \<or> \<not> p (last pre)) \<and> (post = [] \<or> \<not> p (hd post)))"
proof (induction p s arbitrary: w rule: runs.induct)
  case (1 p s)
  show ?case
  proof (cases "dropWhile (\<lambda>c. \<not> p c) s")
    case Nil
    then have "runs p s = []" by (simp only: runs.simps[of p s] list.case)
    with "1.prems" show ?thesis by simp
  next
    case (Cons x xs)
    let ?ys = "x # xs"
    let ?pre = "takeWhile (\<lambda>c. \<not> p c) s"
    have px: "p x" using Cons hd_dropWhile[of "\<lambda>c. \<not> p c" s] by auto
    have s_split: "?pre @ ?ys = s"
      using takeWhile_dropWhile_id[of "\<lambda>c. \<not> p c" s] by (simp only: Cons)
    have unfold: "runs p s = takeWhile p ?ys # runs p (dropWhile p ?ys)"
      by (simp only: runs.simps[of p s] Cons list.case)
    from "1.prems" unfold
    consider (head) "w = takeWhile p ?ys" | (tail) "w \<in> set (runs p (dropWhile p ?ys))"
      by auto
    then show ?thesis
    proof cases
      case head
      have w1: "w \<noteq> []" using head px by simp
      have w2: "\<forall>c\<in>set w. p c" using head by (auto dest: set_takeWhileD)
      have "?pre @ w @ dropWhile p ?ys = ?pre @ ?ys"
        by (simp only: head takeWhile_dropWhile_id)
      then have e: "s = ?pre @ w @ dropWhile p ?ys" by (simp only: s_split)
      have b1: "?pre = [] \<or> \<not> p (last ?pre)"
      proof (cases "?pre = []")
        case False
        then have "last ?pre \<in> set ?pre" by simp
        then show ?thesis by (auto dest: set_takeWhileD)
      qed simp
      have b2: "dropWhile p ?ys = [] \<or> \<not> p (hd (dropWhile p ?ys))"
        using hd_dropWhile[of p ?ys] by blast
      show ?thesis using w1 w2 e b1 b2 by blast
    next
      case tail
      from "1.IH"[OF Cons tail] obtain pre' post' where
        w1: "w \<noteq> []" and w2: "\<forall>c\<in>set w. p c" and
        e': "dropWhile p ?ys = pre' @ w @ post'" and
        b1': "pre' = [] \<or> \<not> p (last pre')" and b2: "post' = [] \<or> \<not> p (hd post')"
        by blast
      have ne: "pre' \<noteq> []"
      proof
        assume "pre' = []"
        with e' w1 have "hd (dropWhile p ?ys) = hd w" "dropWhile p ?ys \<noteq> []" by auto
        moreover have "p (hd w)" using w1 w2 by simp
        ultimately show False using hd_dropWhile[of p ?ys] by auto
      qed
      let ?pre2 = "?pre @ takeWhile p ?ys @ pre'"
      have "?pre2 @ w @ post' = ?pre @ takeWhile p ?ys @ dropWhile p ?ys"
        by (simp only: e' append_assoc)
      also have "\<dots> = ?pre @ ?ys" by (simp only: takeWhile_dropWhile_id)
      finally have e: "s = ?pre2 @ w @ post'" by (simp only: s_split)
      have "last ?pre2 = last pre'" using ne by simp
      then have b1: "?pre2 = [] \<or> \<not> p (last ?pre2)" using b1' ne by simp
      show ?thesis using w1 w2 e b1 b2 by blast
    qed
  qed
qed

lemma runs_complete:
  "w \<noteq> [] \<Longrightarrow> \<forall>c\<in>set w. p c \<Longrightarrow> s = pre @ w @ post \<Longrightarrow>
   pre = [] \<or> \<not> p (last pre) \<Longrightarrow> post = [] \<or> \<not> p (hd post) \<Longrightarrow> w \<in> set (runs p s)"
proof (induction p s arbitrary: pre rule: runs.induct)
  case (1 p s)
  have phd: "p (hd w)" using "1.prems"(1,2) by simp
  show ?case
  proof (cases "\<forall>c\<in>set pre. \<not> p c")
    case True
    have d1: "dropWhile (\<lambda>c. \<not> p c) s = w @ post"
    proof -
      have "dropWhile (\<lambda>c. \<not> p c) s = dropWhile (\<lambda>c. \<not> p c) (w @ post)"
        using True "1.prems"(3) by (simp add: dropWhile_append)
      also have "\<dots> = w @ post" using phd "1.prems"(1) by (cases w) auto
      finally show ?thesis .
    qed
    have t: "takeWhile p (w @ post) = w"
    proof -
      have "takeWhile p post = []" using "1.prems"(5) by (cases post) auto
      then show ?thesis using "1.prems"(2) by (simp add: takeWhile_append2)
    qed
    obtain x xs where xs: "w @ post = x # xs" using "1.prems"(1) by (cases w) auto
    have "runs p s = takeWhile p (x # xs) # runs p (dropWhile p (x # xs))"
      using d1 xs by (simp only: runs.simps[of p s] list.case)
    then show ?thesis using t xs by simp
  next
    case False
    then have pre_ne: "pre \<noteq> []" by auto
    then have nl: "\<not> p (last pre)" using "1.prems"(4) by simp
    let ?pre2 = "dropWhile (\<lambda>c. \<not> p c) pre"
    have pre2_ne: "?pre2 \<noteq> []" using False by (simp add: dropWhile_eq_Nil_conv)
    have d1: "dropWhile (\<lambda>c. \<not> p c) s = ?pre2 @ w @ post"
      using False "1.prems"(3) by (auto simp: dropWhile_append)
    obtain x xs where xs: "?pre2 @ w @ post = x # xs" using pre2_ne by (cases ?pre2) auto
    have l2: "last ?pre2 = last pre" using pre2_ne by (rule last_dropWhile_eq)
    let ?pre3 = "dropWhile p ?pre2"
    have ex2: "\<exists>c\<in>set ?pre2. \<not> p c" using l2 nl pre2_ne last_in_set by metis
    then have pre3_ne: "?pre3 \<noteq> []" by (simp add: dropWhile_eq_Nil_conv)
    from ex2 obtain c where c: "c \<in> set ?pre2" "\<not> p c" by blast
    have "dropWhile p (x # xs) = dropWhile p (?pre2 @ w @ post)" by (simp only: xs)
    also have "\<dots> = ?pre3 @ w @ post" using c by (rule dropWhile_append1)
    finally have d2: "dropWhile p (x # xs) = ?pre3 @ w @ post" .
    have l3: "last ?pre3 = last pre" using last_dropWhile_eq[OF pre3_ne] l2 by simp
    have "w \<in> set (runs p (dropWhile p (x # xs)))"
    proof (rule "1.IH"[of x xs ?pre3])
      show "dropWhile (\<lambda>c. \<not> p c) s = x # xs" by (simp only: d1 xs)
      show "w \<noteq> []" by (rule "1.prems"(1))
      show "\<forall>c\<in>set w. p c" by (rule "1.prems"(2))
      show "dropWhile p (x # xs) = ?pre3 @ w @ post" by (rule d2)
      show "?pre3 = [] \<or> \<not> p (last ?pre3)" using l3 nl by simp
      show "post = [] \<or> \<not> p (hd post)" by (rule "1.prems"(5))
    qed
    moreover have "runs p s = takeWhile p (x # xs) # runs p (dropWhile p (x # xs))"
      by (simp only: runs.simps[of p s] d1 xs list.case)
    ultimately show ?thesis by simp
  qed
qed

lemma runs_whole_word:
  "w \<noteq> [] \<Longrightarrow> \<forall>c\<in>set w. is_word_char c \<Longrightarrow> w \<in> set (runs is_word_char s) \<longleftrightarrow> whole_word w s"
  unfolding whole_word_def
  using runs_sound[of w is_word_char s] runs_complete[of w is_word_char s] by blast

lemma whole_word_sublist: "whole_word w s \<Longrightarrow> sublist w s"
  by (auto simp: whole_word_def sublist_def)

lemma lower_char_idem: "lower_char (lower_char c) = lower_char c"
  by (auto simp: lower_char_def Let_def)

lemma str_lower_idem: "str_lower (str_lower s) = str_lower s"
  by (simp add: str_lower_def lower_char_idem)

lemma keywords_are_words:
  "T \<in> set keywords' \<Longrightarrow> T \<noteq> [] \<and> 2 \<le> length T \<and> (\<forall>c\<in>set T. is_word_char c)"
  by (auto simp: keywords'_def is_word_char_def)

lemma map_of_kw:
  "map_of (map (\<lambda>k. (''kw_'' @ k, g k)) ks) (''kw_'' @ T) = (if T \<in> set ks then Some (g T) else None)"
  by (induction ks) auto

lemma kw_flag_enrich:
  "T \<in> set keywords' \<Longrightarrow>
   kw_flag (enrich tb num r) T =
     Some (if whole_word T (str_lower (astype_str (csv_description r))) then 1 else 0)"
proof -
  assume T: "T \<in> set keywords'"
  let ?d = "str_lower (astype_str (csv_description r))"
  have "T \<in> set (tokenize ?d) \<longleftrightarrow> T \<in> set (runs is_word_char ?d)"
    using keywords_are_words[OF T] by (simp add: tokenize_def str_lower_idem)
  also have "\<dots> \<longleftrightarrow> whole_word T ?d"
    using keywords_are_words[OF T] by (intro runs_whole_word) auto
  finally have tok: "T \<in> set (tokenize ?d) \<longleftrightarrow> whole_word T ?d" .
  show ?thesis
    using T by (simp add: kw_flag_def enrich_fields kw_row_def map_of_kw[simplified] tok)
qed

subsection \<open>The scenario rows, evaluated\<close>

lemma notna_scenario: "notna_subset reno" "notna_subset paris"
  by (simp_all add: notna_subset_def reno_def paris_def)

lemma scenario_rows: "final_df tb num [reno, paris] = [enrich tb num reno, enrich tb num paris]"
  by (simp add: final_df_rows notna_scenario)

lemma scenario_fields:
  "Year (enrich tb num reno) = Some 1995"
  "Year (enrich tb num paris) = Some 2001"
  "country (enrich tb num reno) = Some ''USA''"
  "country (enrich tb num paris) = Some ''France''"
  "city (enrich tb num reno) = Some ''Reno''"
  "city (enrich tb num paris) = Some ''Paris''"
  "description (enrich tb num reno) = ''A silver saucer with a hovering disk shape''"
  "description (enrich tb num paris) = ''Bright orb seen over the city''"
  "latitude (enrich tb num reno) = Some 39.5"
  "longitude (enrich tb num reno) = Some (- 119.8)"
  by (simp_all add: enrich_fields to_numeric_coerce_def astype_str_def reno_def paris_def)

lemma low_reno:
  "str_lower ''A silver saucer with a hovering disk shape'' = ''a silver saucer with a hovering disk shape''"
  by (simp add: str_lower_def lower_char_def char_of_def bit_Suc_0_iff)

lemma low_low_reno:
  "str_lower ''a silver saucer with a hovering disk shape'' = ''a silver saucer with a hovering disk shape''"
  using low_reno str_lower_idem[of "''A silver saucer with a hovering disk shape''"] by simp

lemma runs_reno:
  "runs is_word_char ''a silver saucer with a hovering disk shape'' =
     [''a'', ''silver'', ''saucer'', ''with'', ''a'', ''hovering'', ''disk'', ''shape'']"
  by (simp add: runs.simps is_word_char_def)

lemma tok_reno:
  "tokenize (str_lower ''A silver saucer with a hovering disk shape'') =
     [''silver'', ''saucer'', ''with'', ''hovering'', ''disk'', ''shape'']"
  by (simp add: tokenize_def low_reno low_low_reno runs_reno)

lemma kw_reno:
  "kw (enrich tb num reno) =
     [(''kw_craft'', 0), (''kw_alien'', 0), (''kw_ufo'', 0), (''kw_object'', 0), (''kw_disk'', 1),
      (''kw_orb'', 0), (''kw_triangle'', 0), (''kw_hover'', 0), (''kw_saucer'', 1),
      (''kw_cigar'', 0), (''kw_sphere'', 0), (''kw_entity'', 0)]"
  by (simp add: enrich_fields astype_str_def reno_def kw_row_def keywords'_def tok_reno)

lemma word_count_reno: "word_count ''A silver saucer with a hovering disk shape'' = 8"
  by (simp add: word_count_def isspace_def)

lemma digits_1995: "digits_numeric ''1995'' = Some 1995"
  by (simp add: digits_numeric_def digit_value_def)

lemma digits_unknown: "digits_numeric ''unknown'' = None"
  by (simp add: digits_numeric_def digit_value_def)

subsection \<open>The callback on the heap\<close>

text \<open>
  The frame that the callback plots holds the rows \<open>dff\<close> selects from the table, and a
  library that only reads gives the four figures of those rows.
\<close>

lemma update_charts_geo_fig:
  assumes "final_df_ref st < length (heap st)"
  shows "geo_fig (fst (update_charts px countries years st))
           = scatter_geo (dff (heap st ! final_df_ref st) countries years)"
  using assms
  by (simp add: update_charts_def getitem_mask_def px_call_def dff_def Let_def nth_append
      split: option.splits)

lemma update_charts_reading:
  assumes "final_df_ref st < length (heap st)"
  shows "fst (update_charts px_reading countries years st)
           = \<lparr> geo_fig = scatter_geo (dff (heap st ! final_df_ref st) countries years),
               trend_fig = groupby_Year_size (dff (heap st ! final_df_ref st) countries years),
               hyper_fig = scatter (dff (heap st ! final_df_ref st) countries years),
               battle_fig = density_mapbox (dff (heap st ! final_df_ref st) countries years) \<rparr>"
  using assms
  by (simp add: update_charts_def getitem_mask_def px_call_def px_reading_def dff_def Let_def
      nth_append split: option.splits)

section \<open>The claims\<close>

text \<open>
  C1. The claim: every row of the enriched table has a Year that was parsed as a number;
  a row whose Year fails the coercion is absent from the table. The script does
  otherwise on the file \<open>unknown_year_table\<close>: line 15 drops the NaN entry from the
  series only, the assignment puts NaN back by label, and the second row stays in the
  table with Year NaN. The layout still finds its slider bounds, so the process starts.
\<close>

theorem unparsable_year_row_kept:
  "map (\<lambda>r. (city r, Year r)) (final_df flat_sentiment digits_numeric unknown_year_table) =
     [(Some ''Reno'', Some 1995), (Some ''Paris'', None)]
   \<and> year_filter (final_df flat_sentiment digits_numeric unknown_year_table) = Inr (1995, 1995)"
  by (simp add: final_df_rows unknown_year_table_def notna_subset_def reno_def paris_def
      enrich_fields to_numeric_coerce_def digits_1995 digits_unknown
      year_filter_def series_min_def series_max_def notna_values_def py_int_def)

text \<open>
  C2, as stated: for every record and every keyword, the flag is true iff the keyword
  occurs, case-insensitively, as a substring of the description. It fails on the Reno
  row: ``hover'' is a substring of ``hovering'' and the flag \<^verbatim>\<open>kw_hover\<close> is 0.
\<close>

theorem substring_flag_counterexample:
  "\<not> (\<forall>r\<in>set (final_df flat_sentiment digits_numeric [reno, paris]). \<forall>T\<in>set keywords'.
        (kw_flag r T = Some 1) = sublist (str_lower T) (str_lower (description r)))"
proof
  assume a: "\<forall>r\<in>set (final_df flat_sentiment digits_numeric [reno, paris]). \<forall>T\<in>set keywords'.
        (kw_flag r T = Some 1) = sublist (str_lower T) (str_lower (description r))"
  let ?r = "enrich flat_sentiment digits_numeric reno"
  have mem: "?r \<in> set (final_df flat_sentiment digits_numeric [reno, paris])"
    by (simp add: scenario_rows)
  have T: "''hover'' \<in> set keywords'" by (simp add: keywords'_def)
  have sub: "sublist (str_lower ''hover'') (str_lower (description ?r))"
    by (simp add: scenario_fields low_reno str_lower_def lower_char_def sublist_code)
  have flag: "kw_flag ?r ''hover'' = Some 0"
    by (simp add: kw_flag_def kw_reno)
  from a mem T have "(kw_flag ?r ''hover'' = Some 1) = sublist (str_lower ''hover'') (str_lower (description ?r))"
    by blast
  with sub flag show False by simp
qed

text \<open>
  C2, amended: for every record of the enriched table and every keyword \<open>T\<close> of the
  list, the flag \<^verbatim>\<open>kw_T\<close> is 1 if \<open>T\<close> stands in the lowercased description as a whole
  word (an occurrence with no letter, digit or underscore next to it on either side) and
  0 otherwise; a flag that is 1 implies that \<open>T\<close> is a substring of the lowercased
  description, but not the other way round.
\<close>

theorem whole_word_flag:
  "\<forall>r\<in>set (final_df tb num updb). \<forall>T\<in>set keywords'.
     kw_flag r T = Some (if whole_word T (str_lower (description r)) then 1 else 0)
     \<and> (kw_flag r T = Some 1 \<longrightarrow> sublist T (str_lower (description r)))"
proof (intro ballI)
  fix r T
  assume r: "r \<in> set (final_df tb num updb)" and T: "T \<in> set keywords'"
  from r obtain q where q: "r = enrich tb num q" by (auto simp: final_df_rows)
  have flag: "kw_flag r T = Some (if whole_word T (str_lower (description r)) then 1 else 0)"
    unfolding q using kw_flag_enrich[OF T, of tb num q] by (simp add: enrich_fields)
  moreover have "sublist T (str_lower (description r))" if "kw_flag r T = Some 1"
    using that flag by (auto intro: whole_word_sublist split: if_splits)
  ultimately show "kw_flag r T = Some (if whole_word T (str_lower (description r)) then 1 else 0)
     \<and> (kw_flag r T = Some 1 \<longrightarrow> sublist T (str_lower (description r)))"
    by blast
qed

theorem whole_word_flag_witness:
  "whole_word ''saucer'' ''a silver saucer with a hovering disk shape''
   \<and> \<not> whole_word ''hover'' ''a silver saucer with a hovering disk shape''"
proof -
  let ?r = "enrich flat_sentiment digits_numeric reno"
  have mem: "?r \<in> set (final_df flat_sentiment digits_numeric [reno, paris])"
    by (simp add: scenario_rows)
  have d: "str_lower (description ?r) = ''a silver saucer with a hovering disk shape''"
    by (simp add: scenario_fields low_reno)
  have T1: "''saucer'' \<in> set keywords'" and T2: "''hover'' \<in> set keywords'"
    by (simp_all add: keywords'_def)
  have f1: "kw_flag ?r ''saucer'' = Some 1" and f2: "kw_flag ?r ''hover'' = Some 0"
    by (simp_all add: kw_flag_def kw_reno)
  from whole_word_flag[rule_format, OF mem T1] whole_word_flag[rule_format, OF mem T2] f1 f2
  show ?thesis unfolding d by (auto split: if_splits)
qed

lemma scenario_subset:
  "dff (final_df tb num [reno, paris]) None (1995, 1995) = [enrich tb num reno]"
  by (simp add: scenario_rows dff_def between_def scenario_fields)

text \<open>
  C3, as stated: on the two-row table of the Reno and the Paris record, the pipeline
  followed by the filter with years [1995, 1995] and no country yields exactly the Reno
  record, whose flags are \<^verbatim>\<open>kw_saucer\<close> = true, \<^verbatim>\<open>kw_disk\<close> = true, \<^verbatim>\<open>kw_hover\<close> = true
  and \<^verbatim>\<open>kw_orb\<close> = false. The flag \<^verbatim>\<open>kw_hover\<close> is 0: the description has the word
  ``hovering'', not the word ``hover''.
\<close>

theorem scenario_hover_counterexample:
  "\<not> (map city (dff (final_df flat_sentiment digits_numeric [reno, paris]) None (1995, 1995))
         = [Some ''Reno'']
      \<and> (\<forall>r\<in>set (dff (final_df flat_sentiment digits_numeric [reno, paris]) None (1995, 1995)).
            kw_flag r ''saucer'' = Some 1 \<and> kw_flag r ''disk'' = Some 1
            \<and> kw_flag r ''hover'' = Some 1 \<and> kw_flag r ''orb'' = Some 0))"
  by (simp add: scenario_subset kw_flag_def kw_reno)

text \<open>
  C3, amended: on that table, whatever the sentiment analyser and the numeric reader,
  the filter with years [1995, 1995] and no country yields exactly the Reno record (the
  geographic scatter has its one point), and that record's flags are
  \<^verbatim>\<open>kw_saucer\<close> = 1, \<^verbatim>\<open>kw_disk\<close> = 1, \<^verbatim>\<open>kw_hover\<close> = 0 and \<^verbatim>\<open>kw_orb\<close> = 0.
\<close>

theorem scenario_1995:
  "map (\<lambda>r. (country r, city r, latitude r, longitude r, Year r, description r))
       (dff (final_df tb num [reno, paris]) None (1995, 1995))
     = [(Some ''USA'', Some ''Reno'', Some 39.5, Some (- 119.8), Some 1995,
         ''A silver saucer with a hovering disk shape'')]
   \<and> map (\<lambda>r. (kw_flag r ''saucer'', kw_flag r ''disk'', kw_flag r ''hover'', kw_flag r ''orb''))
       (dff (final_df tb num [reno, paris]) None (1995, 1995))
     = [(Some 1, Some 1, Some 0, Some 0)]
   \<and> map geo_hover_name
       (geo_fig (fst (update_charts px None (1995, 1995)
          \<lparr> heap = [final_df tb num [reno, paris]], final_df_ref = 0 \<rparr>)))
     = [Some ''Reno'']"
  by (simp add: scenario_subset scenario_fields kw_flag_def kw_reno update_charts_geo_fig
      scatter_geo_def)

text \<open>
  C4. For every record of the enriched table: sentiment and subjectivity are the
  analyser's scores of the description, mentions is the word count of the description,
  impact = log(mentions + 1), veracity = log(mentions + 1) * |sentiment| and
  image_score = (|sentiment| + subjectivity) * veracity. The word count is
  \<open>word_count\<close>, which counts the word starts of the text and never splits it.
\<close>

theorem derived_fields:
  "\<forall>r \<in> set (final_df tb num updb).
     (sentiment r, subjectivity r) = tb (description r)
     \<and> mentions r = int (word_count (description r))
     \<and> impact r = ln (real_of_int (mentions r + 1))
     \<and> veracity r = ln (real_of_int (mentions r + 1)) * \<bar>sentiment r\<bar>
     \<and> image_score r = (\<bar>sentiment r\<bar> + subjectivity r) * veracity r"
  by (auto simp: final_df_rows enrich_fields mentions_word_count)

theorem derived_fields_witness:
  "mentions (enrich flat_sentiment digits_numeric reno) = 8
   \<and> impact (enrich flat_sentiment digits_numeric reno) = ln 9
   \<and> veracity (enrich flat_sentiment digits_numeric reno) = 0
   \<and> image_score (enrich flat_sentiment digits_numeric reno) = 0"
proof -
  let ?r = "enrich flat_sentiment digits_numeric reno"
  have mem: "?r \<in> set (final_df flat_sentiment digits_numeric [reno, paris])"
    by (simp add: scenario_rows)
  from derived_fields[rule_format, OF mem] show ?thesis
    by (simp add: scenario_fields word_count_reno flat_sentiment_def)
qed

text \<open>
  C5. For every record of the enriched table the category is ``Scientific'' when the
  subjectivity is strictly below 0.5 and ``Emotional'' otherwise; it has no third value.
\<close>

theorem category_two_way:
  "\<forall>r \<in> set (final_df tb num updb).
     Analysis_Category r = (if subjectivity r < 0.5 then ''Scientific'' else ''Emotional'')
     \<and> (Analysis_Category r = ''Scientific'' \<or> Analysis_Category r = ''Emotional'')"
  by (auto simp: final_df_rows enrich_fields)

theorem category_two_way_witness:
  "Analysis_Category (enrich flat_sentiment digits_numeric reno) = ''Scientific''"
proof -
  let ?r = "enrich flat_sentiment digits_numeric reno"
  have mem: "?r \<in> set (final_df flat_sentiment digits_numeric [reno, paris])"
    by (simp add: scenario_rows)
  have "subjectivity ?r < 0.5" by (simp add: enrich_fields flat_sentiment_def)
  with category_two_way[rule_format, OF mem] show ?thesis by simp
qed

text \<open>
  C6. The year-range filter is inclusive on both ends: for a range [lo, hi] with
  lo \<le> hi, a record of the table whose year is lo or hi passes the year predicate, and it
  is in the filtered subset exactly when the country predicate lets it through (always,
  when no country is selected).
\<close>

theorem year_bounds_inclusive:
  "r \<in> set table \<Longrightarrow> lo \<le> hi \<Longrightarrow> Year r = Some lo \<or> Year r = Some hi \<Longrightarrow>
     r \<in> set (filter (\<lambda>r. between lo hi (Year r)) table)
     \<and> (r \<in> set (dff table countries (lo, hi))
          \<longleftrightarrow> (case countries of None \<Rightarrow> True | Some cs \<Rightarrow> cs = [] \<or> isin cs (country r)))"
  by (auto simp: dff_def Let_def between_def split: option.splits)

theorem year_bounds_inclusive_witness:
  "enrich flat_sentiment digits_numeric reno
     \<in> set (dff (final_df flat_sentiment digits_numeric [reno, paris]) None (1995, 2001))
   \<and> enrich flat_sentiment digits_numeric paris
     \<in> set (dff (final_df flat_sentiment digits_numeric [reno, paris]) None (1995, 2001))"
proof -
  let ?t = "final_df flat_sentiment digits_numeric [reno, paris]"
  let ?a = "enrich flat_sentiment digits_numeric reno"
  let ?b = "enrich flat_sentiment digits_numeric paris"
  have mem: "?a \<in> set ?t" "?b \<in> set ?t" by (simp_all add: scenario_rows)
  have le: "(1995 :: real) \<le> 2001" by simp
  have ya: "Year ?a = Some 1995 \<or> Year ?a = Some 2001"
    and yb: "Year ?b = Some 1995 \<or> Year ?b = Some 2001"
    by (simp_all add: scenario_fields)
  from year_bounds_inclusive[OF mem(1) le ya, of None]
       year_bounds_inclusive[OF mem(2) le yb, of None]
  show ?thesis by simp
qed

text \<open>
  C7. With an empty or unset country selection the filtered subset is the table filtered
  by the year range alone: every record in range is kept, whatever its country.
\<close>

theorem no_country_selection:
  "countries = None \<or> countries = Some [] \<Longrightarrow>
     dff table countries years = filter (\<lambda>r. between (fst years) (snd years) (Year r)) table"
  by (auto simp: dff_def Let_def)

theorem no_country_selection_witness:
  "map country (dff (final_df flat_sentiment digits_numeric [reno, paris]) (Some []) (1995, 2001))
     = [Some ''USA'', Some ''France'']"
proof -
  have c: "Some [] = None \<or> Some [] = Some ([] :: string list)" by simp
  show ?thesis
    unfolding no_country_selection[OF c]
    by (simp add: scenario_rows between_def scenario_fields)
qed

text \<open>
  C8. For every table, country selection and year range, applying the year predicate
  first and the country predicate second gives the same subset as applying them in the
  opposite order.
\<close>

theorem filter_order_irrelevant:
  "dff table countries years = dff_country_first table countries years"
  by (auto simp: dff_def dff_country_first_def Let_def split: option.splits intro: filter_cong)

text \<open>
  C9. Every invocation of the callback, with any country selection and year range,
  leaves the table unchanged, whatever the plotting calls do to the frame they are
  handed: after the call the name \<^verbatim>\<open>final_df\<close> refers to the object it referred to
  before, that object holds the rows it held before, and so does every other object that
  existed before the call. The calls are only ever handed a frame that lines 70 and 72
  have created. In the instance below the library removes every row of the frame it is
  handed: the table keeps its two rows, and the frame of line 72 ends empty.
\<close>

theorem handler_leaves_table:
  "final_df_ref st < length (heap st) \<Longrightarrow>
     final_df_ref (snd (update_charts px countries years st)) = final_df_ref st
     \<and> heap (snd (update_charts px countries years st)) ! final_df_ref st
         = heap st ! final_df_ref st
     \<and> take (length (heap st)) (heap (snd (update_charts px countries years st))) = heap st"
  by (simp add: update_charts_def getitem_mask_def px_call_def Let_def nth_append
      split: option.splits)

theorem handler_leaves_table_witness:
  "map city (heap (snd (update_charts px_clearing (Some [''USA'']) (1995, 2001)
       \<lparr> heap = [final_df flat_sentiment digits_numeric [reno, paris]], final_df_ref = 0 \<rparr>)) ! 0)
     = [Some ''Reno'', Some ''Paris'']
   \<and> drop 1 (heap (snd (update_charts px_clearing (Some [''USA'']) (1995, 2001)
       \<lparr> heap = [final_df flat_sentiment digits_numeric [reno, paris]], final_df_ref = 0 \<rparr>)))
     = [[enrich flat_sentiment digits_numeric reno, enrich flat_sentiment digits_numeric paris],
        []]"
  using handler_leaves_table[of
      "\<lparr> heap = [final_df flat_sentiment digits_numeric [reno, paris]], final_df_ref = 0 \<rparr>"
      px_clearing "Some [''USA'']" "(1995, 2001)"]
  by (simp add: scenario_rows scenario_fields update_charts_def getitem_mask_def px_call_def
      px_clearing_def Let_def between_def isin_def)

end
